theory Spec2Isabelle
  imports Main "HOL-Library.Word"
begin

section \<open>JavaScript strings\<close>

text \<open>
  A JavaScript string is a sequence of UTF-16 code units. The literals of
  \<^verbatim>\<open>index.ts\<close> are ASCII and are written through \<open>js\<close>.
\<close>

type_synonym js_string = "16 word list"

definition js :: "string \<Rightarrow> js_string" where
  "js s = map of_char s"

text \<open>
  \<^verbatim>\<open>String.prototype.trim\<close> strips the code points of the ECMAScript productions
  WhiteSpace (TAB, VT, FF, ZWNBSP and the Unicode category Zs) and LineTerminator
  (LF, CR, LS, PS) from both ends.
\<close>

definition isWhiteSpace :: "16 word \<Rightarrow> bool" where
  "isWhiteSpace c =
     (c = 0x0009 \<or> c = 0x000B \<or> c = 0x000C \<or> c = 0xFEFF \<or>
      c = 0x0020 \<or> c = 0x00A0 \<or> c = 0x1680 \<or> (0x2000 \<le> c \<and> c \<le> 0x200A) \<or>
      c = 0x202F \<or> c = 0x205F \<or> c = 0x3000 \<or>
      c = 0x000A \<or> c = 0x000D \<or> c = 0x2028 \<or> c = 0x2029)"

definition trim :: "js_string \<Rightarrow> js_string" where
  "trim s = rev (dropWhile isWhiteSpace (rev (dropWhile isWhiteSpace s)))"

text \<open>\<^verbatim>\<open>s.startsWith(searchString)\<close>, from position 0.\<close>

definition startsWith :: "js_string \<Rightarrow> js_string \<Rightarrow> bool" where
  "startsWith s searchString =
     (length searchString \<le> length s \<and> take (length searchString) s = searchString)"

text \<open>
  \<^verbatim>\<open>s.charAt(pos)\<close> returns the one-unit string at \<open>pos\<close>, and the empty string when
  \<open>pos\<close> is negative or not below the length; it never throws. The position is an
  \<open>int\<close> because the handler passes \<^verbatim>\<open>len - 3\<close>, which is negative for short data.
\<close>

definition charAt :: "js_string \<Rightarrow> int \<Rightarrow> js_string" where
  "charAt s pos = (if 0 \<le> pos \<and> pos < int (length s) then [s ! nat pos] else [])"

text \<open>
  The decimal rendering of a non-negative integer number, as a template literal
  produces it (\<^verbatim>\<open>Number::toString\<close>, radix 10).
\<close>

definition digit_unit :: "nat \<Rightarrow> 16 word" where
  "digit_unit d = of_nat (48 + d)"

fun number_toString :: "nat \<Rightarrow> js_string" where
  "number_toString n =
     (if n < 10 then [digit_unit n]
      else number_toString (n div 10) @ [digit_unit (n mod 10)])"

declare number_toString.simps [simp del]


section \<open>The plugin's state and its collaborators\<close>

text \<open>
  What \<^verbatim>\<open>throw\<close> can carry: an \<^verbatim>\<open>Error\<close> object with its message, or any other
  value, which has no \<^verbatim>\<open>message\<close> property. \<^verbatim>\<open>err?.message\<close> inside a template
  literal renders the latter as \<^verbatim>\<open>undefined\<close>.
\<close>

datatype thrown = Error (message: js_string) | ValueWithoutMessage

fun message_text :: "thrown \<Rightarrow> js_string" where
  "message_text (Error m) = m"
| "message_text ValueWithoutMessage = js ''undefined''"

datatype outcome = Normal | Throws thrown

text \<open>
  The calls into code outside the repository that may throw, by call site. An
  environment says, for each site, whether the call made there throws and what.
  The first six sites are the statements inside the \<^verbatim>\<open>try\<close> block of \<open>start\<close>, in
  order; the last is \<^verbatim>\<open>serial.write\<close> in \<open>nmeaHandler\<close>.
\<close>

datatype site =
    ConstructSerial | AttachOpen | AttachError | SubscribeIn | SubscribeOut
  | StartTimer | SerialWrite

type_synonym env = "site \<Rightarrow> thrown option"

definition no_faults :: env where
  "no_faults = (\<lambda>_. None)"

definition try_sites :: "site list" where
  "try_sites =
     [ConstructSerial, AttachOpen, AttachError, SubscribeIn, SubscribeOut, StartTimer]"

fun outcome_of :: "thrown option \<Rightarrow> outcome" where
  "outcome_of None = Normal"
| "outcome_of (Some e) = Throws e"

text \<open>
  The serial port object of the \<^verbatim>\<open>serialport\<close> package, as a recording double: the
  options it was constructed with, whether the device has opened (opening is
  asynchronous, so a fresh port is not open), the events that have a listener, and
  the argument of every \<^verbatim>\<open>write\<close> call, oldest first.
\<close>

record serial_port =
  port_path :: js_string
  port_baudRate :: nat
  isOpen :: bool
  port_listeners :: "js_string list"
  write_calls :: "js_string list"

record PluginSettings =
  baudRate :: nat
  serialPort :: js_string

datatype host_call =
    Debug js_string | SetPluginStatus js_string | SetPluginError js_string

type_synonym timer = nat

text \<open>
  The three module variables of \<^verbatim>\<open>index.ts\<close>, followed by what the plugin has done
  to its host: the messages passed to \<^verbatim>\<open>app.debug\<close>, \<^verbatim>\<open>app.setPluginStatus\<close> and
  \<^verbatim>\<open>app.setPluginError\<close> (oldest first; these callbacks only record), the channels
  on which \<open>nmeaHandler\<close> is subscribed, and the interval timers that are running,
  each with its period in milliseconds.
\<close>

record world =
  reportInterval :: "timer option"
  forwardedCounter :: nat
  serial :: "serial_port option"
  host_log :: "host_call list"
  bus_subscriptions :: "js_string list"
  active_timers :: "(timer \<times> nat) list"
  next_timer :: timer

definition initial_world :: world where
  "initial_world =
     \<lparr>reportInterval = None, forwardedCounter = 0, serial = None, host_log = [],
      bus_subscriptions = [], active_timers = [], next_timer = 0\<rparr>"

definition plugin_id :: js_string where
  "plugin_id = js ''signalk-nmea0183-to-serial''"

definition plugin_name :: js_string where
  "plugin_name = js ''NMEA0183 to Serial Port Forwarder''"

definition app_debug :: "js_string \<Rightarrow> world \<Rightarrow> world" where
  "app_debug msg w = w\<lparr>host_log := host_log w @ [Debug msg]\<rparr>"

definition app_setPluginStatus :: "js_string \<Rightarrow> world \<Rightarrow> world" where
  "app_setPluginStatus msg w = w\<lparr>host_log := host_log w @ [SetPluginStatus msg]\<rparr>"

definition app_setPluginError :: "js_string \<Rightarrow> world \<Rightarrow> world" where
  "app_setPluginError msg w = w\<lparr>host_log := host_log w @ [SetPluginError msg]\<rparr>"

text \<open>\<^verbatim>\<open>clearInterval\<close> stops the timer if it runs and does nothing otherwise.\<close>

definition clearInterval :: "timer \<Rightarrow> world \<Rightarrow> world" where
  "clearInterval t w = w\<lparr>active_timers := filter (\<lambda>(t', _). t' \<noteq> t) (active_timers w)\<rparr>"

text \<open>\<^verbatim>\<open>serial.write(chunk)\<close> on the double: the call is recorded, then it may throw.\<close>

definition serial_write :: "env \<Rightarrow> js_string \<Rightarrow> serial_port \<Rightarrow> outcome \<times> serial_port" where
  "serial_write e chunk port =
     (outcome_of (e SerialWrite), port\<lparr>write_calls := write_calls port @ [chunk]\<rparr>)"


section \<open>The reporter and the forwarding handler\<close>

text \<open>
  The counter is a JavaScript number that only ever holds a count of sentences;
  numbers are exact on integers up to \<open>2^53\<close>, and the model takes it as a \<open>nat\<close>.
\<close>

definition reporter :: "world \<Rightarrow> outcome \<times> world" where
  "reporter w =
     (let w1 = app_setPluginStatus
                 (js ''Forwarded '' @ number_toString (forwardedCounter w)
                    @ js '' NMEA0183 messages.'') w
      in (Normal, w1\<lparr>forwardedCounter := 0\<rparr>))"

text \<open>
  The condition of the \<^verbatim>\<open>if\<close> in \<open>nmeaHandler\<close>, on the raw sentence: the frame
  validator.
\<close>

definition frame_check :: "js_string \<Rightarrow> bool" where
  "frame_check sentence =
     (let data = trim sentence;
          len = int (length data)
      in startsWith data (js ''$'') \<and> charAt data (len - 3) = js ''*'')"

definition nmeaHandler :: "env \<Rightarrow> js_string \<Rightarrow> world \<Rightarrow> outcome \<times> world" where
  "nmeaHandler e sentence w =
     (let data = trim sentence;
          len = int (length data)
      in if startsWith data (js ''$'') \<and> charAt data (len - 3) = js ''*'' then
           (let w1 = w\<lparr>forwardedCounter := forwardedCounter w + 1\<rparr>
            in case serial w1 of
                 Some port \<Rightarrow>
                   (let (r, port') = serial_write e (data @ [0x000D, 0x000A]) port
                    in (r, w1\<lparr>serial := Some port'\<rparr>))
               | None \<Rightarrow> (Normal, w1))
         else (Normal, w))"

text \<open>
  The event bus delivers sentences one after the other, each to completion. What a
  handler changed stays changed when it throws, so delivery continues from the
  world the handler left.
\<close>

definition deliver :: "env \<Rightarrow> js_string list \<Rightarrow> world \<Rightarrow> world" where
  "deliver e sentences w = fold (\<lambda>s w'. snd (nmeaHandler e s w')) sentences w"


section \<open>start and stop\<close>

text \<open>Statements in sequence: the first one that throws ends the block.\<close>

fun run_steps :: "(world \<Rightarrow> outcome \<times> world) list \<Rightarrow> world \<Rightarrow> outcome \<times> world" where
  "run_steps [] w = (Normal, w)"
| "run_steps (f # fs) w =
     (case f w of
        (Normal, w') \<Rightarrow> run_steps fs w'
      | (Throws x, w') \<Rightarrow> (Throws x, w'))"

text \<open>
  \<^verbatim>\<open>serial = new SerialPort({path, baudRate})\<close>: when the constructor throws, the
  assignment does not happen.
\<close>

definition new_SerialPort :: "env \<Rightarrow> js_string \<Rightarrow> nat \<Rightarrow> thrown + serial_port" where
  "new_SerialPort e p b =
     (case e ConstructSerial of
        Some x \<Rightarrow> Inl x
      | None \<Rightarrow> Inr \<lparr>port_path = p, port_baudRate = b, isOpen = False,
                     port_listeners = [], write_calls = []\<rparr>)"

definition construct_serial :: "env \<Rightarrow> PluginSettings \<Rightarrow> world \<Rightarrow> outcome \<times> world" where
  "construct_serial e settings w =
     (case new_SerialPort e (serialPort settings)
             (if baudRate settings = 0 then 38400 else baudRate settings) of
        Inl x \<Rightarrow> (Throws x, w)
      | Inr port \<Rightarrow> (Normal, w\<lparr>serial := Some port\<rparr>))"

text \<open>\<^verbatim>\<open>serial.on(event, listener)\<close>; on \<^verbatim>\<open>null\<close> the property access throws.\<close>

definition serial_on :: "env \<Rightarrow> site \<Rightarrow> js_string \<Rightarrow> world \<Rightarrow> outcome \<times> world" where
  "serial_on e st event w =
     (case serial w of
        None \<Rightarrow> (Throws (Error (js ''Cannot read properties of null'')), w)
      | Some port \<Rightarrow>
          (case e st of
             Some x \<Rightarrow> (Throws x, w)
           | None \<Rightarrow>
               (Normal, w\<lparr>serial := Some (port\<lparr>port_listeners := port_listeners port @ [event]\<rparr>)\<rparr>)))"

text \<open>\<^verbatim>\<open>anyApp.on(channel, nmeaHandler)\<close>.\<close>

definition app_on :: "env \<Rightarrow> site \<Rightarrow> js_string \<Rightarrow> world \<Rightarrow> outcome \<times> world" where
  "app_on e st channel w =
     (case e st of
        Some x \<Rightarrow> (Throws x, w)
      | None \<Rightarrow> (Normal, w\<lparr>bus_subscriptions := bus_subscriptions w @ [channel]\<rparr>))"

text \<open>\<^verbatim>\<open>reportInterval = setInterval(reporter, ms)\<close>: a fresh timer handle.\<close>

definition set_report_interval :: "env \<Rightarrow> nat \<Rightarrow> world \<Rightarrow> outcome \<times> world" where
  "set_report_interval e ms w =
     (case e StartTimer of
        Some x \<Rightarrow> (Throws x, w)
      | None \<Rightarrow>
          (Normal, w\<lparr>reportInterval := Some (next_timer w),
                     active_timers := active_timers w @ [(next_timer w, ms)],
                     next_timer := next_timer w + 1\<rparr>))"

definition try_block :: "env \<Rightarrow> PluginSettings \<Rightarrow> world \<Rightarrow> outcome \<times> world" where
  "try_block e settings =
     run_steps
       [construct_serial e settings,
        serial_on e AttachOpen (js ''open''),
        serial_on e AttachError (js ''error''),
        app_on e SubscribeIn (js ''nmea0183''),
        app_on e SubscribeOut (js ''nmea0183out''),
        set_report_interval e 20000,
        (\<lambda>w. (Normal, app_setPluginStatus (js ''Started'') w))]"

definition start :: "env \<Rightarrow> PluginSettings \<Rightarrow> world \<Rightarrow> outcome \<times> world" where
  "start e settings w =
     (let w1 = app_debug (plugin_id @ js '' starting...'') w
      in case try_block e settings w1 of
           (Normal, w2) \<Rightarrow> (Normal, w2)
         | (Throws err, w2) \<Rightarrow>
             (Normal, app_setPluginError (js ''Error starting plugin: '' @ message_text err) w2))"

definition stop :: "world \<Rightarrow> outcome \<times> world" where
  "stop w =
     (let w1 = (case reportInterval w of
                  Some t \<Rightarrow> clearInterval t w
                | None \<Rightarrow> w)
      in (Normal, app_setPluginStatus (plugin_name @ js '' stopped.'') w1))"


section \<open>Observations and example inputs\<close>


text \<open>The write calls the transport has received so far.\<close>

definition writes_of :: "world \<Rightarrow> js_string list" where
  "writes_of w = (case serial w of None \<Rightarrow> [] | Some port \<Rightarrow> write_calls port)"

definition stopped_status :: host_call where
  "stopped_status = SetPluginStatus (plugin_name @ js '' stopped.'')"

definition example_settings :: PluginSettings where
  "example_settings = \<lparr>baudRate = 4800, serialPort = js ''/dev/test0''\<rparr>"

text \<open>
  The world after a \<open>start\<close> in which nothing threw: the port object exists, and the
  device has not (or not yet) opened.
\<close>

definition never_opened_world :: world where
  "never_opened_world = snd (start no_faults example_settings initial_world)"


section \<open>The frame validator\<close>

lemma nmeaHandler_frame_check:
  "nmeaHandler e sentence w =
     (if frame_check sentence then
        (case serial w of
           Some port \<Rightarrow>
             (outcome_of (e SerialWrite),
              w\<lparr>forwardedCounter := forwardedCounter w + 1,
                serial := Some (port\<lparr>write_calls :=
                                  write_calls port @ [trim sentence @ [0x000D, 0x000A]]\<rparr>)\<rparr>)
         | None \<Rightarrow> (Normal, w\<lparr>forwardedCounter := forwardedCounter w + 1\<rparr>))
      else (Normal, w))"
  by (simp add: nmeaHandler_def frame_check_def serial_write_def Let_def split: option.split)

lemma framing_conditions:
  "(startsWith data (js ''$'') \<and> charAt data (int (length data) - 3) = js ''*'') =
     (4 \<le> length data \<and> data ! 0 = 0x24 \<and> data ! (length data - 3) = 0x2A)"
proof (cases data)
  case Nil
  then show ?thesis by (simp add: startsWith_def js_def)
next
  case (Cons c cs)
  show ?thesis
  proof (cases "length data < 4")
    case True
    then have "length cs < 3" using Cons by simp
    then consider "length cs = 0" | "length cs = 1" | "length cs = 2" by linarith
    then show ?thesis using Cons True
      by cases (auto simp: startsWith_def charAt_def js_def)
  next
    case False
    then have "nat (int (length data) - 3) = length data - 3" by linarith
    then show ?thesis using Cons False
      by (auto simp: startsWith_def charAt_def js_def)
  qed
qed

text \<open>
  C1. The sentence is accepted exactly when its trimmed form has at least four
  code units, starts with \<open>$\<close> and has \<open>*\<close> third from last; nothing else about the
  sentence matters. Acceptance is what the handler does: the counter goes up by one
  when the three conditions hold and stays otherwise.
\<close>

theorem frame_check_iff_framing:
  "frame_check sentence =
     (4 \<le> length (trim sentence) \<and> trim sentence ! 0 = 0x24
        \<and> trim sentence ! (length (trim sentence) - 3) = 0x2A)
   \<and> forwardedCounter (snd (nmeaHandler e sentence w)) =
       (if 4 \<le> length (trim sentence) \<and> trim sentence ! 0 = 0x24
             \<and> trim sentence ! (length (trim sentence) - 3) = 0x2A
        then forwardedCounter w + 1 else forwardedCounter w)"
proof -
  have fc: "frame_check sentence =
     (4 \<le> length (trim sentence) \<and> trim sentence ! 0 = 0x24
        \<and> trim sentence ! (length (trim sentence) - 3) = 0x2A)"
    unfolding frame_check_def Let_def by (rule framing_conditions)
  have "forwardedCounter (snd (nmeaHandler e sentence w)) =
          (if frame_check sentence then forwardedCounter w + 1 else forwardedCounter w)"
    by (simp add: nmeaHandler_frame_check split: option.split)
  with fc show ?thesis by simp
qed

theorem frame_check_iff_framing_witness:
  "frame_check (js ''  $GPRMC,1*5B  '') \<and> \<not> frame_check (js ''no-dollar*1A'')
   \<and> forwardedCounter (snd (nmeaHandler no_faults (js ''  $GPRMC,1*5B  '') initial_world)) = 1"
  using frame_check_iff_framing [of "js ''  $GPRMC,1*5B  ''" no_faults initial_world]
        frame_check_iff_framing [of "js ''no-dollar*1A''" no_faults initial_world]
  by (simp add: js_def trim_def isWhiteSpace_def initial_world_def)

lemma charAt_short:
  "length data < 3 \<Longrightarrow> charAt data (int (length data) - 3) = []"
  by (simp add: charAt_def)

text \<open>
  C2. A sentence whose trimmed form has fewer than four code units is rejected:
  the handler returns normally and leaves the world as it was, counter included.
  The check reads position \<open>len - 3\<close> through \<open>charAt\<close>, which gives the empty string
  for the negative positions of data shorter than three units, and the first unit,
  which is not \<open>*\<close> once it is \<open>$\<close>, for data of exactly three.
\<close>

theorem short_sentence_rejected:
  assumes "length (trim sentence) < 4"
  shows "\<not> frame_check sentence
         \<and> nmeaHandler e sentence w = (Normal, w)
         \<and> (if length (trim sentence) < 3
            then charAt (trim sentence) (int (length (trim sentence)) - 3) = []
            else charAt (trim sentence) (int (length (trim sentence)) - 3)
                   = [trim sentence ! 0])"
proof -
  have nf: "\<not> frame_check sentence"
    unfolding frame_check_def Let_def framing_conditions using assms by simp
  have "nmeaHandler e sentence w = (Normal, w)"
    using nf by (simp add: nmeaHandler_frame_check)
  moreover have "length (trim sentence) < 3 \<Longrightarrow>
      charAt (trim sentence) (int (length (trim sentence)) - 3) = []"
    by (rule charAt_short)
  moreover have "\<not> length (trim sentence) < 3 \<Longrightarrow>
      charAt (trim sentence) (int (length (trim sentence)) - 3) = [trim sentence ! 0]"
    using assms by (simp add: charAt_def)
  ultimately show ?thesis using nf by simp
qed

theorem short_sentence_rejected_witness:
  "length (trim (js '' $* '')) < 4
   \<and> nmeaHandler no_faults (js '' $* '') initial_world = (Normal, initial_world)
   \<and> charAt (trim (js '' $* '')) (int (length (trim (js '' $* ''))) - 3) = []"
proof -
  have h: "length (trim (js '' $* '')) < 4"
    by (simp add: js_def trim_def isWhiteSpace_def)
  show ?thesis
    using h short_sentence_rejected [OF h, of no_faults initial_world]
    by (simp add: js_def trim_def isWhiteSpace_def)
qed

text \<open>
  C8. A sentence that fails the framing check is dropped in silence: the handler
  returns normally and the world is the same, so the counter, the write calls of the
  port and the messages published to the host are all untouched.
\<close>

theorem invalid_sentence_dropped:
  assumes "\<not> frame_check sentence"
  shows "nmeaHandler e sentence w = (Normal, w)"
  using assms by (simp add: nmeaHandler_frame_check)

theorem invalid_sentence_dropped_witness:
  "\<not> frame_check (js ''no-dollar*1A'')
   \<and> nmeaHandler no_faults (js ''no-dollar*1A'') initial_world = (Normal, initial_world)"
proof -
  have h: "\<not> frame_check (js ''no-dollar*1A'')"
    by (simp add: frame_check_def startsWith_def js_def trim_def isWhiteSpace_def)
  show ?thesis
    using h invalid_sentence_dropped [OF h, of no_faults initial_world] by simp
qed


section \<open>The serial write\<close>

lemmas start_defs =
  start_def try_block_def construct_serial_def new_SerialPort_def serial_on_def app_on_def
  set_report_interval_def app_debug_def app_setPluginStatus_def app_setPluginError_def

lemma never_opened_world_eq:
  "never_opened_world =
     \<lparr>reportInterval = Some 0, forwardedCounter = 0,
      serial = Some \<lparr>port_path = js ''/dev/test0'', port_baudRate = 4800, isOpen = False,
                     port_listeners = [js ''open'', js ''error''], write_calls = []\<rparr>,
      host_log = [Debug (js ''signalk-nmea0183-to-serial starting...''),
                  SetPluginStatus (js ''Started'')],
      bus_subscriptions = [js ''nmea0183'', js ''nmea0183out''],
      active_timers = [(0, 20000)], next_timer = 1\<rparr>"
  by (simp add: never_opened_world_def start_defs no_faults_def example_settings_def
        initial_world_def plugin_id_def js_def)




lemma deliver_Nil: "deliver e [] w = w"
  by (simp add: deliver_def)

lemma deliver_Cons: "deliver e (s # ss) w = deliver e ss (snd (nmeaHandler e s w))"
  by (simp add: deliver_def)

lemma nmeaHandler_counter:
  "forwardedCounter (snd (nmeaHandler e s w)) =
     forwardedCounter w + (if frame_check s then 1 else 0)"
  by (simp add: nmeaHandler_frame_check split: option.split)

lemma nmeaHandler_host_log: "host_log (snd (nmeaHandler e s w)) = host_log w"
  by (simp add: nmeaHandler_frame_check split: option.split)

lemma deliver_counter:
  "forwardedCounter (deliver e ss w) = forwardedCounter w + length (filter frame_check ss)"
  by (induction ss arbitrary: w) (simp_all add: deliver_Nil deliver_Cons nmeaHandler_counter)

lemma deliver_host_log: "host_log (deliver e ss w) = host_log w"
  by (induction ss arbitrary: w) (simp_all add: deliver_Nil deliver_Cons nmeaHandler_host_log)

lemma deliver_serial:
  "serial w = Some port \<Longrightarrow>
   serial (deliver e ss w) =
     Some (port\<lparr>write_calls := write_calls port
                   @ map (\<lambda>s. trim s @ [0x000D, 0x000A]) (filter frame_check ss)\<rparr>)"
proof (induction ss arbitrary: w port)
  case Nil
  then show ?case by (simp add: deliver_Nil)
next
  case (Cons s ss)
  show ?case
  proof (cases "frame_check s")
    case True
    then have "serial (snd (nmeaHandler e s w)) =
        Some (port\<lparr>write_calls := write_calls port @ [trim s @ [0x000D, 0x000A]]\<rparr>)"
      using Cons.prems by (simp add: nmeaHandler_frame_check)
    from Cons.IH [OF this] True show ?thesis by (simp add: deliver_Cons)
  next
    case False
    then have "serial (snd (nmeaHandler e s w)) = Some port"
      using Cons.prems by (simp add: nmeaHandler_frame_check)
    from Cons.IH [OF this] False show ?thesis by (simp add: deliver_Cons)
  qed
qed

text \<open>
  C7. A sentence that passes the framing check, with a handle present, causes one
  write call, whose argument is the trimmed sentence followed by CR LF; the port is
  otherwise as before. Over a run of deliveries the write calls are those of the
  passing sentences, one each, in the order of delivery.
\<close>

theorem wire_format:
  assumes "frame_check sentence" and "serial w = Some port"
  shows "serial (snd (nmeaHandler e sentence w)) =
           Some (port\<lparr>write_calls := write_calls port @ [trim sentence @ [0x000D, 0x000A]]\<rparr>)
         \<and> writes_of (deliver e sentences w) =
             writes_of w @ map (\<lambda>s. trim s @ [0x000D, 0x000A]) (filter frame_check sentences)"
  using assms deliver_serial [OF assms(2), of e sentences]
  by (simp add: nmeaHandler_frame_check writes_of_def)

theorem wire_format_witness:
  "frame_check (js '' $IIVWR,,,,,,,*hh '') \<and> serial never_opened_world \<noteq> None
   \<and> writes_of (snd (nmeaHandler no_faults (js '' $IIVWR,,,,,,,*hh '') never_opened_world)) =
       [[0x24, 0x49, 0x49, 0x56, 0x57, 0x52, 0x2C, 0x2C, 0x2C, 0x2C, 0x2C, 0x2C, 0x2C,
         0x2A, 0x68, 0x68, 0x0D, 0x0A]]"
proof -
  have f: "frame_check (js '' $IIVWR,,,,,,,*hh '')"
    by (simp add: frame_check_def js_def trim_def isWhiteSpace_def startsWith_def charAt_def)
  have s: "serial never_opened_world =
      Some \<lparr>port_path = js ''/dev/test0'', port_baudRate = 4800, isOpen = False,
            port_listeners = [js ''open'', js ''error''], write_calls = []\<rparr>"
    by (simp add: never_opened_world_eq)
  show ?thesis
    using f s wire_format [OF f s, of no_faults "[]"]
    by (simp add: writes_of_def js_def trim_def isWhiteSpace_def)
qed




section \<open>The reporting cycle\<close>

lemma number_toString_2: "number_toString 2 = js ''2''"
  by (simp add: number_toString.simps digit_unit_def js_def)

text \<open>
  C3. Right after a reporter tick the counter is 0. If the sentences delivered
  before the next tick include exactly \<open>k\<close> that pass the framing check, that tick
  returns normally, publishes \<open>Forwarded k NMEA0183 messages.\<close> as the only message
  since the previous tick, and leaves the counter at 0.
\<close>

theorem counter_round_trip:
  assumes "w1 = snd (reporter w0)"
    and "w2 = deliver e sentences w1"
    and "length (filter frame_check sentences) = k"
  shows "forwardedCounter w1 = 0
         \<and> fst (reporter w2) = Normal
         \<and> host_log (snd (reporter w2)) =
             host_log w1 @ [SetPluginStatus
               (js ''Forwarded '' @ number_toString k @ js '' NMEA0183 messages.'')]
         \<and> forwardedCounter (snd (reporter w2)) = 0"
proof -
  have c1: "forwardedCounter w1 = 0"
    using assms(1) by (simp add: reporter_def Let_def)
  have "forwardedCounter w2 = k"
    using assms(2,3) c1 by (simp add: deliver_counter)
  moreover have "host_log w2 = host_log w1"
    using assms(2) by (simp add: deliver_host_log)
  ultimately show ?thesis
    using c1 by (simp add: reporter_def Let_def app_setPluginStatus_def)
qed

theorem counter_round_trip_witness:
  "length (filter frame_check [js ''$A*12'', js ''junk'', js '' $B*00 '']) = 2
   \<and> host_log (snd (reporter
        (deliver no_faults [js ''$A*12'', js ''junk'', js '' $B*00 '']
           (snd (reporter initial_world))))) =
       [SetPluginStatus (js ''Forwarded 0 NMEA0183 messages.''),
        SetPluginStatus (js ''Forwarded 2 NMEA0183 messages.'')]
   \<and> forwardedCounter (snd (reporter
        (deliver no_faults [js ''$A*12'', js ''junk'', js '' $B*00 '']
           (snd (reporter initial_world))))) = 0"
proof -
  have h: "length (filter frame_check [js ''$A*12'', js ''junk'', js '' $B*00 '']) = 2"
    by (simp add: frame_check_def js_def trim_def isWhiteSpace_def startsWith_def charAt_def)
  have l: "host_log (snd (reporter initial_world)) =
             [SetPluginStatus (js ''Forwarded 0 NMEA0183 messages.'')]"
    by (simp add: reporter_def app_setPluginStatus_def initial_world_def
          number_toString.simps digit_unit_def js_def)
  show ?thesis
    using h l counter_round_trip [OF refl refl h, where e = no_faults and ?w0.0 = initial_world]
    by (simp add: number_toString_2 js_def)
qed


section \<open>start and stop: faults and teardown\<close>

lemma start_never_throws: "fst (start e settings w) = Normal"
  by (simp add: start_def Let_def split: prod.split outcome.split)

lemma try_block_first_fault:
  assumes "find (\<lambda>s. e s \<noteq> None) try_sites = Some st" and "e st = Some x"
  shows "fst (try_block e settings w) = Throws x
         \<and> host_log (snd (try_block e settings w)) = host_log w"
proof (cases "e ConstructSerial")
  case (Some a)
  with assms show ?thesis
    by (simp add: try_sites_def try_block_def construct_serial_def new_SerialPort_def)
next
  case c: None
  show ?thesis
  proof (cases "e AttachOpen")
    case (Some a)
    with assms c show ?thesis
      by (simp add: try_sites_def try_block_def construct_serial_def new_SerialPort_def
            serial_on_def)
  next
    case o: None
    show ?thesis
    proof (cases "e AttachError")
      case (Some a)
      with assms c o show ?thesis
        by (simp add: try_sites_def try_block_def construct_serial_def new_SerialPort_def
              serial_on_def)
    next
      case r: None
      show ?thesis
      proof (cases "e SubscribeIn")
        case (Some a)
        with assms c o r show ?thesis
          by (simp add: try_sites_def try_block_def construct_serial_def new_SerialPort_def
                serial_on_def app_on_def)
      next
        case i: None
        show ?thesis
        proof (cases "e SubscribeOut")
          case (Some a)
          with assms c o r i show ?thesis
            by (simp add: try_sites_def try_block_def construct_serial_def
                  new_SerialPort_def serial_on_def app_on_def)
        next
          case u: None
          show ?thesis
          proof (cases "e StartTimer")
            case (Some a)
            with assms c o r i u show ?thesis
              by (simp add: try_sites_def try_block_def construct_serial_def
                    new_SerialPort_def serial_on_def app_on_def set_report_interval_def)
          next
            case None
            with assms c o r i u show ?thesis
              by (simp add: try_sites_def)
          qed
        qed
      qed
    qed
  qed
qed

text \<open>
  C5. When a statement of the \<^verbatim>\<open>try\<close> block throws (the constructor, either
  listener attachment, either subscription, or the timer), \<open>start\<close> returns normally
  and publishes, after its debug line, one error status: \<open>Error starting plugin: \<close>
  followed by the message of what the first failing statement threw.
\<close>

theorem start_catches:
  assumes "find (\<lambda>s. e s \<noteq> None) try_sites = Some st" and "e st = Some x"
  shows "fst (start e settings w) = Normal
         \<and> host_log (snd (start e settings w)) =
             host_log w @ [Debug (plugin_id @ js '' starting...''),
                           SetPluginError (js ''Error starting plugin: '' @ message_text x)]"
proof -
  let ?w1 = "app_debug (plugin_id @ js '' starting...'') w"
  obtain w2 where t: "try_block e settings ?w1 = (Throws x, w2)"
    and l: "host_log w2 = host_log ?w1"
    using try_block_first_fault [OF assms, of settings ?w1]
    by (cases "try_block e settings ?w1") simp
  show ?thesis
    using t l by (simp add: start_def Let_def app_setPluginError_def app_debug_def)
qed

theorem start_catches_witness:
  "find (\<lambda>s. (no_faults(AttachError := Some (Error (js ''boom'')))) s \<noteq> None) try_sites
     = Some AttachError
   \<and> start (no_faults(AttachError := Some (Error (js ''boom'')))) example_settings initial_world
     = (Normal,
        \<lparr>reportInterval = None, forwardedCounter = 0,
         serial = Some \<lparr>port_path = js ''/dev/test0'', port_baudRate = 4800, isOpen = False,
                        port_listeners = [js ''open''], write_calls = []\<rparr>,
         host_log = [Debug (js ''signalk-nmea0183-to-serial starting...''),
                     SetPluginError (js ''Error starting plugin: boom'')],
         bus_subscriptions = [], active_timers = [], next_timer = 0\<rparr>)"
proof -
  have f: "find (\<lambda>s. (no_faults(AttachError := Some (Error (js ''boom'')))) s \<noteq> None) try_sites
             = Some AttachError"
    by (simp add: try_sites_def no_faults_def)
  have x: "(no_faults(AttachError := Some (Error (js ''boom'')))) AttachError
             = Some (Error (js ''boom''))"
    by simp
  show ?thesis
    using f start_catches [OF f x, of example_settings initial_world]
    by (simp add: start_defs no_faults_def example_settings_def initial_world_def
          plugin_id_def js_def)
qed

lemma stop_twice:
  "snd (stop (snd (stop w))) =
     (snd (stop w))\<lparr>host_log := host_log (snd (stop w)) @ [stopped_status]\<rparr>"
  by (cases "reportInterval w")
     (simp_all add: stop_def clearInterval_def app_setPluginStatus_def stopped_status_def
        Let_def conj_commute)

lemma stop_again:
  "snd (stop (w\<lparr>host_log := l\<rparr>)) = (snd (stop w))\<lparr>host_log := l @ [stopped_status]\<rparr>"
  by (cases "reportInterval w")
     (simp_all add: stop_def clearInterval_def app_setPluginStatus_def stopped_status_def Let_def)

lemma stop_host_log: "host_log (snd (stop w)) = host_log w @ [stopped_status]"
  by (cases "reportInterval w")
     (simp_all add: stop_def clearInterval_def app_setPluginStatus_def stopped_status_def Let_def)

lemma stop_many:
  "((\<lambda>w'. snd (stop w')) ^^ n) (snd (stop w)) =
     (snd (stop w))\<lparr>host_log := host_log w @ replicate (Suc n) stopped_status\<rparr>"
proof (induction n)
  case 0
  have "(snd (stop w))\<lparr>host_log := host_log (snd (stop w))\<rparr> = snd (stop w)" by simp
  then show ?case by (simp add: stop_host_log)
next
  case (Suc n)
  have "((\<lambda>w'. snd (stop w')) ^^ Suc n) (snd (stop w)) =
          snd (stop (((\<lambda>w'. snd (stop w')) ^^ n) (snd (stop w))))"
    by simp
  also have "\<dots> = snd (stop ((snd (stop w))\<lparr>host_log := host_log w @ replicate (Suc n) stopped_status\<rparr>))"
    by (simp only: Suc.IH)
  also have "\<dots> = (snd (stop (snd (stop w))))\<lparr>host_log := (host_log w @ replicate (Suc n) stopped_status) @ [stopped_status]\<rparr>"
    by (rule stop_again)
  also have "\<dots> = (snd (stop w))\<lparr>host_log := host_log w @ replicate (Suc (Suc n)) stopped_status\<rparr>"
    by (simp add: stop_twice replicate_append_same)
  finally show ?case .
qed

text \<open>
  C6. \<open>stop\<close> returns normally from any world, with or without a timer handle. A
  second \<open>stop\<close> changes nothing but the host's log, which gets the stopped status
  once more; the same holds for any number of further calls.
\<close>

theorem stop_idempotent:
  "fst (stop w) = Normal
   \<and> fst (stop (snd (stop w))) = Normal
   \<and> snd (stop (snd (stop w))) =
       (snd (stop w))\<lparr>host_log := host_log (snd (stop w))
                         @ [SetPluginStatus (plugin_name @ js '' stopped.'')]\<rparr>
   \<and> fst (stop (((\<lambda>w'. snd (stop w')) ^^ n) w)) = Normal
   \<and> ((\<lambda>w'. snd (stop w')) ^^ n) (snd (stop w)) =
       (snd (stop w))\<lparr>host_log := host_log w
                         @ replicate (Suc n) (SetPluginStatus (plugin_name @ js '' stopped.''))\<rparr>"
  using stop_twice [of w] stop_many [of n w]
  by (simp add: stopped_status_def stop_def Let_def)

theorem stop_idempotent_witness:
  "fst (stop initial_world) = Normal
   \<and> snd (stop (snd (stop never_opened_world))) =
       never_opened_world
         \<lparr>active_timers := [],
          host_log := host_log never_opened_world
            @ [SetPluginStatus (js ''NMEA0183 to Serial Port Forwarder stopped.''),
               SetPluginStatus (js ''NMEA0183 to Serial Port Forwarder stopped.'')]\<rparr>"
  using stop_idempotent [of initial_world 0] stop_idempotent [of never_opened_world 0]
  by (simp add: never_opened_world_eq stop_def clearInterval_def app_setPluginStatus_def
        plugin_name_def js_def)


text \<open>
  C9. \<open>stop\<close> removes the timer named by \<open>reportInterval\<close> from the running timers,
  when there is one, and publishes the stopped status. Everything else is as before:
  the port object with its open state and write calls, the counter, the stored timer
  handle and the bus subscriptions.
\<close>

theorem stop_frame:
  "snd (stop w) =
     w\<lparr>active_timers :=
         (case reportInterval w of
            Some t \<Rightarrow> filter (\<lambda>(t', _). t' \<noteq> t) (active_timers w)
          | None \<Rightarrow> active_timers w),
       host_log := host_log w @ [SetPluginStatus (plugin_name @ js '' stopped.'')]\<rparr>
   \<and> serial (snd (stop w)) = serial w
   \<and> forwardedCounter (snd (stop w)) = forwardedCounter w
   \<and> reportInterval (snd (stop w)) = reportInterval w
   \<and> bus_subscriptions (snd (stop w)) = bus_subscriptions w"
  by (cases "reportInterval w")
     (simp_all add: stop_def clearInterval_def app_setPluginStatus_def Let_def)

theorem stop_frame_witness:
  "snd (stop (snd (nmeaHandler no_faults (js ''$IIVWR,,,,,,,*hh'') never_opened_world))) =
     \<lparr>reportInterval = Some 0, forwardedCounter = 1,
      serial = Some \<lparr>port_path = js ''/dev/test0'', port_baudRate = 4800, isOpen = False,
                     port_listeners = [js ''open'', js ''error''],
                     write_calls = [js ''$IIVWR,,,,,,,*hh'' @ [0x000D, 0x000A]]\<rparr>,
      host_log = [Debug (js ''signalk-nmea0183-to-serial starting...''),
                  SetPluginStatus (js ''Started''),
                  SetPluginStatus (js ''NMEA0183 to Serial Port Forwarder stopped.'')],
      bus_subscriptions = [js ''nmea0183'', js ''nmea0183out''],
      active_timers = [], next_timer = 1\<rparr>"
proof -
  have f: "frame_check (js ''$IIVWR,,,,,,,*hh'')"
    by (simp add: frame_check_def js_def trim_def isWhiteSpace_def startsWith_def charAt_def)
  have t: "trim (js ''$IIVWR,,,,,,,*hh'') = js ''$IIVWR,,,,,,,*hh''"
    by (simp add: js_def trim_def isWhiteSpace_def)
  show ?thesis
    using f t
      stop_frame [of "snd (nmeaHandler no_faults (js ''$IIVWR,,,,,,,*hh'') never_opened_world)"]
    by (simp add: nmeaHandler_frame_check never_opened_world_eq plugin_name_def js_def)
qed

end
